theory Spec2Isabelle
  imports Complex_Main "HOL-Library.Log_Nat"
begin

section \<open>JavaScript values as the pages receive them\<close>

text \<open>
  The pages are TypeScript run as JavaScript: a row of the \<^verbatim>\<open>groups\<close> table is declared
  \<^verbatim>\<open>GroupRow\<close> with \<^verbatim>\<open>number\<close> fields, but the rows are the store's JSON cast with
  \<^verbatim>\<open>data as GroupRow[]\<close>, and the code coerces every numeric field with
  \<^verbatim>\<open>Number(x || 0)\<close>. So a field is modelled as a JavaScript primitive value.

  Numbers are IEEE 754 doubles. A finite double is modelled by the rational it denotes;
  the two infinities and NaN are values of their own. Every arithmetic operation
  computes the exact result and rounds it to the nearest double, ties to even, an
  overflow giving an infinity. The sign of zero is not modelled.
\<close>

datatype jsnum = Fin rat | PInf | NInf | NaN

subsection \<open>Rounding to a double\<close>

text \<open>The nearest integer, a tie going to the even one.\<close>

definition round_half_even :: "rat \<Rightarrow> int" where
  "round_half_even m =
     (let n = \<lfloor>m\<rfloor>; f = m - of_int n
      in if f < 1 / 2 then n else if 1 / 2 < f then n + 1 else if even n then n else n + 1)"

text \<open>For \<open>x > 0\<close>, the exponent \<open>e\<close> with \<open>2\<^sup>e \<le> x < 2\<^sup>e\<^sup>+\<^sup>1\<close>, from the bit lengths of numerator and denominator.\<close>

definition floor_log2 :: "rat \<Rightarrow> int" where
  "floor_log2 x =
     (let e0 = bitlen (fst (quotient_of x)) - bitlen (snd (quotient_of x))
      in if 2 powi e0 \<le> x then e0 else e0 - 1)"

text \<open>
  A double has 53 significant bits and an exponent from -1022 to 1023: in the binade of
  exponent \<open>e\<close> the doubles are the multiples of \<open>2\<^sup>e\<^sup>-\<^sup>5\<^sup>2\<close>, below \<open>2\<^sup>-\<^sup>1\<^sup>0\<^sup>2\<^sup>2\<close> (the subnormal
  range) the multiples of \<open>2\<^sup>-\<^sup>1\<^sup>0\<^sup>7\<^sup>4\<close>. A result that rounds up to \<open>2\<^sup>1\<^sup>0\<^sup>2\<^sup>4\<close> overflows.
\<close>

definition round_to_double :: "rat \<Rightarrow> jsnum" where
  "round_to_double x =
     (if x = 0 then Fin 0
      else
        (let a = \<bar>x\<bar>;
             e = max (floor_log2 a) (- 1022);
             q = 2 powi (e - 52);
             n = round_half_even (a / q)
         in if 1024 \<le> e \<or> (e = 1023 \<and> n = 2 ^ 53)
            then (if 0 < x then PInf else NInf)
            else Fin (if 0 < x then of_int n * q else - (of_int n * q))))"

subsection \<open>Arithmetic and comparison\<close>

fun js_neg :: "jsnum \<Rightarrow> jsnum" where
  "js_neg (Fin a) = Fin (- a)"
| "js_neg PInf = NInf"
| "js_neg NInf = PInf"
| "js_neg NaN = NaN"

text \<open>\<^verbatim>\<open>a + b\<close> on numbers.\<close>

fun js_add :: "jsnum \<Rightarrow> jsnum \<Rightarrow> jsnum" where
  "js_add NaN b = NaN"
| "js_add a NaN = NaN"
| "js_add (Fin a) (Fin b) = round_to_double (a + b)"
| "js_add (Fin a) b = b"
| "js_add a (Fin b) = a"
| "js_add PInf PInf = PInf"
| "js_add NInf NInf = NInf"
| "js_add PInf NInf = NaN"
| "js_add NInf PInf = NaN"

text \<open>\<^verbatim>\<open>a * b\<close>: an infinity times zero is NaN, otherwise the signs multiply.\<close>

fun js_mul :: "jsnum \<Rightarrow> jsnum \<Rightarrow> jsnum" where
  "js_mul NaN b = NaN"
| "js_mul a NaN = NaN"
| "js_mul (Fin a) (Fin b) = round_to_double (a * b)"
| "js_mul (Fin a) b = (if a = 0 then NaN else if 0 < a then b else js_neg b)"
| "js_mul a (Fin b) = (if b = 0 then NaN else if 0 < b then a else js_neg a)"
| "js_mul PInf b = b"
| "js_mul NInf b = js_neg b"


text \<open>\<^verbatim>\<open>a < b\<close> on numbers: false as soon as one side is NaN.\<close>

fun js_lt :: "jsnum \<Rightarrow> jsnum \<Rightarrow> bool" where
  "js_lt NaN b = False"
| "js_lt a NaN = False"
| "js_lt (Fin a) (Fin b) = (a < b)"
| "js_lt a PInf = (a \<noteq> PInf)"
| "js_lt NInf b = (b \<noteq> NInf)"
| "js_lt a b = False"


text \<open>\<^verbatim>\<open>a >= b\<close>: neither side NaN and not \<^verbatim>\<open>a < b\<close>.\<close>

definition js_ge :: "jsnum \<Rightarrow> jsnum \<Rightarrow> bool" where
  "js_ge a b = (a \<noteq> NaN \<and> b \<noteq> NaN \<and> \<not> js_lt a b)"

text \<open>
  \<^verbatim>\<open>Math.max\<close> and \<^verbatim>\<open>Math.min\<close>: NaN if an argument is NaN; with no argument,
  \<^verbatim>\<open>Math.max()\<close> is \<^verbatim>\<open>-Infinity\<close> and \<^verbatim>\<open>Math.min()\<close> is \<^verbatim>\<open>Infinity\<close>.
\<close>

definition max2 :: "jsnum \<Rightarrow> jsnum \<Rightarrow> jsnum" where
  "max2 a b = (if a = NaN \<or> b = NaN then NaN else if js_lt a b then b else a)"


definition Math_max :: "jsnum list \<Rightarrow> jsnum" where
  "Math_max xs = foldl max2 NInf xs"


subsection \<open>Values and conversions\<close>

text \<open>
  The primitive values. A JSON answer holds no symbol and no bigint; they are here
  because \<^verbatim>\<open>Number\<close> is defined on every primitive and throws on a symbol.
\<close>

datatype jsval =
    JUndefined
  | JNull
  | JBoolean bool
  | JNumber jsnum
  | JString string
  | JBigInt int
  | JSymbol string

text \<open>An exception thrown by the code is a value of the model: the left side of a sum.\<close>

datatype js_error = TypeError

definition and_then :: "js_error + 'a \<Rightarrow> ('a \<Rightarrow> js_error + 'b) \<Rightarrow> js_error + 'b" where
  "and_then m f = (case m of Inl e \<Rightarrow> Inl e | Inr v \<Rightarrow> f v)"

text \<open>
  \<^verbatim>\<open>Number(s)\<close> on a string (StringToNumber): white space is trimmed, the empty string is
  0, then a signed decimal literal (digits, fraction, exponent, \<^verbatim>\<open>Infinity\<close>) or an
  unsigned binary, octal or hexadecimal integer literal, rounded to a double; anything
  else is NaN. Strings are ASCII here.
\<close>

definition isWhiteSpace :: "char \<Rightarrow> bool" where
  "isWhiteSpace c = (c \<in> set [CHR 0x09, CHR 0x0A, CHR 0x0B, CHR 0x0C, CHR 0x0D, CHR 0x20])"

definition trimString :: "string \<Rightarrow> string" where
  "trimString s = rev (dropWhile isWhiteSpace (rev (dropWhile isWhiteSpace s)))"

definition digitValue :: "char \<Rightarrow> nat option" where
  "digitValue c =
     (let n = (of_char c :: nat) in
      if 48 \<le> n \<and> n \<le> 57 then Some (n - 48)
      else if 97 \<le> n \<and> n \<le> 102 then Some (n - 87)
      else if 65 \<le> n \<and> n \<le> 70 then Some (n - 55)
      else None)"

definition isDigitOf :: "nat \<Rightarrow> char \<Rightarrow> bool" where
  "isDigitOf base c = (case digitValue c of Some d \<Rightarrow> d < base | None \<Rightarrow> False)"

definition isDigits :: "nat \<Rightarrow> string \<Rightarrow> bool" where
  "isDigits base s = (s \<noteq> [] \<and> list_all (isDigitOf base) s)"

definition digitsValue :: "nat \<Rightarrow> string \<Rightarrow> nat" where
  "digitsValue base s =
     foldl (\<lambda>acc c. acc * base + (case digitValue c of Some d \<Rightarrow> d | None \<Rightarrow> 0)) 0 s"

definition exponentPart :: "string \<Rightarrow> int option" where
  "exponentPart s =
     (if s \<noteq> [] \<and> hd s = CHR ''+'' then
        (if isDigits 10 (tl s) then Some (int (digitsValue 10 (tl s))) else None)
      else if s \<noteq> [] \<and> hd s = CHR ''-'' then
        (if isDigits 10 (tl s) then Some (- int (digitsValue 10 (tl s))) else None)
      else if isDigits 10 s then Some (int (digitsValue 10 s)) else None)"

definition mantissa :: "string \<Rightarrow> rat option" where
  "mantissa m =
     (let ip = takeWhile (\<lambda>c. c \<noteq> CHR ''.'') m;
          rest = dropWhile (\<lambda>c. c \<noteq> CHR ''.'') m
      in if rest = [] then
           (if isDigits 10 ip then Some (of_nat (digitsValue 10 ip)) else None)
         else
           (let fp = tl rest
            in if (ip = [] \<or> isDigits 10 ip) \<and> (fp = [] \<or> isDigits 10 fp)
                  \<and> \<not> (ip = [] \<and> fp = [])
               then Some (of_nat (digitsValue 10 ip)
                          + of_nat (digitsValue 10 fp) / 10 ^ length fp)
               else None))"

definition strUnsignedDecimalLiteral :: "string \<Rightarrow> jsnum option" where
  "strUnsignedDecimalLiteral s =
     (if s = ''Infinity'' then Some PInf
      else
        (let isE = (\<lambda>c. c = CHR ''e'' \<or> c = CHR ''E'');
             m = takeWhile (\<lambda>c. \<not> isE c) s;
             rest = dropWhile (\<lambda>c. \<not> isE c) s
         in if rest = [] then map_option round_to_double (mantissa m)
            else
              (case (mantissa m, exponentPart (tl rest)) of
                 (Some r, Some e) \<Rightarrow>
                   Some (round_to_double
                           (if 0 \<le> e then r * 10 ^ nat e else r / 10 ^ nat (- e)))
               | _ \<Rightarrow> None)))"

definition nonDecimalIntegerLiteral :: "string \<Rightarrow> jsnum option" where
  "nonDecimalIntegerLiteral s =
     (if length s < 2 \<or> hd s \<noteq> CHR ''0'' then None
      else
        (let p = hd (tl s); ds = tl (tl s);
             base = (if p = CHR ''x'' \<or> p = CHR ''X'' then 16
                     else if p = CHR ''o'' \<or> p = CHR ''O'' then 8
                     else if p = CHR ''b'' \<or> p = CHR ''B'' then 2
                     else (0::nat))
         in if base = 0 then None
            else if isDigits base ds then Some (round_to_double (of_nat (digitsValue base ds)))
            else Some NaN))"

definition StringToNumber :: "string \<Rightarrow> jsnum" where
  "StringToNumber str =
     (let s = trimString str
      in if s = [] then Fin 0
         else
           (case nonDecimalIntegerLiteral s of
              Some n \<Rightarrow> n
            | None \<Rightarrow>
                (if hd s = CHR ''-'' then
                   (case strUnsignedDecimalLiteral (tl s) of
                      Some n \<Rightarrow> js_neg n | None \<Rightarrow> NaN)
                 else if hd s = CHR ''+'' then
                   (case strUnsignedDecimalLiteral (tl s) of
                      Some n \<Rightarrow> n | None \<Rightarrow> NaN)
                 else
                   (case strUnsignedDecimalLiteral s of
                      Some n \<Rightarrow> n | None \<Rightarrow> NaN))))"

text \<open>
  \<^verbatim>\<open>Number(v)\<close> (ToNumber) on a primitive value: a number, or a TypeError on a symbol.
\<close>

fun js_Number :: "jsval \<Rightarrow> js_error + jsnum" where
  "js_Number JUndefined = Inr NaN"
| "js_Number JNull = Inr (Fin 0)"
| "js_Number (JBoolean b) = Inr (if b then Fin 1 else Fin 0)"
| "js_Number (JNumber n) = Inr n"
| "js_Number (JString s) = Inr (StringToNumber s)"
| "js_Number (JBigInt i) = Inr (round_to_double (of_int i))"
| "js_Number (JSymbol d) = Inl TypeError"

text \<open>
  Truthiness (ToBoolean): the falsy values are undefined, null, false, 0, NaN, the empty
  string and the bigint 0.
\<close>

fun ToBoolean :: "jsval \<Rightarrow> bool" where
  "ToBoolean JUndefined = False"
| "ToBoolean JNull = False"
| "ToBoolean (JBoolean b) = b"
| "ToBoolean (JNumber n) = (n \<noteq> Fin 0 \<and> n \<noteq> NaN)"
| "ToBoolean (JString s) = (s \<noteq> [])"
| "ToBoolean (JBigInt i) = (i \<noteq> 0)"
| "ToBoolean (JSymbol d) = True"

text \<open>\<^verbatim>\<open>a || b\<close>.\<close>

definition js_or :: "jsval \<Rightarrow> jsval \<Rightarrow> jsval" where
  "js_or a b = (if ToBoolean a then a else b)"

text \<open>
  \<^verbatim>\<open>Array.prototype.map\<close>, \<^verbatim>\<open>filter\<close> and \<^verbatim>\<open>reduce\<close> with a callback that may throw: the
  elements are visited in order and the first exception ends the call.
\<close>

fun js_map :: "('a \<Rightarrow> js_error + 'b) \<Rightarrow> 'a list \<Rightarrow> js_error + 'b list" where
  "js_map f [] = Inr []"
| "js_map f (x # xs) =
     and_then (f x) (\<lambda>y. and_then (js_map f xs) (\<lambda>ys. Inr (y # ys)))"

fun js_filter :: "('a \<Rightarrow> js_error + bool) \<Rightarrow> 'a list \<Rightarrow> js_error + 'a list" where
  "js_filter f [] = Inr []"
| "js_filter f (x # xs) =
     and_then (f x) (\<lambda>keep. and_then (js_filter f xs)
       (\<lambda>ys. Inr (if keep then x # ys else ys)))"

fun js_reduce :: "('b \<Rightarrow> 'a \<Rightarrow> js_error + 'b) \<Rightarrow> 'b \<Rightarrow> 'a list \<Rightarrow> js_error + 'b" where
  "js_reduce f acc [] = Inr acc"
| "js_reduce f acc (x # xs) = and_then (f acc x) (\<lambda>acc'. js_reduce f acc' xs)"

section \<open>The viewer page: \<^verbatim>\<open>HomePage\<close>\<close>

record GroupRow =
  row_id :: string
  name :: string
  weekly_amount :: jsval
  weeks_total :: jsval
  paid_weeks :: jsval
  updated_at :: string


text \<open>The fields of \<^verbatim>\<open>stats\<close>, each as the \<^verbatim>\<open>useMemo\<close> body computes it from \<^verbatim>\<open>groups\<close>.\<close>

definition members :: "GroupRow list \<Rightarrow> nat" where
  "members groups = length groups"

definition monthWeeks :: "GroupRow list \<Rightarrow> js_error + jsnum" where
  "monthWeeks groups =
     (if members groups > 0
      then and_then
             (js_map (\<lambda>g. js_Number (js_or (weeks_total g) (JNumber (Fin 0)))) groups)
             (\<lambda>xs. Inr (Math_max xs))
      else Inr (Fin 4))"

definition totalCollected :: "GroupRow list \<Rightarrow> js_error + jsnum" where
  "totalCollected groups =
     js_reduce (\<lambda>sum g.
        and_then (js_Number (js_or (paid_weeks g) (JNumber (Fin 0)))) (\<lambda>paidWeeks.
        and_then (js_Number (js_or (weekly_amount g) (JNumber (Fin 0)))) (\<lambda>weekly.
        Inr (js_add sum (js_mul paidWeeks weekly))))) (Fin 0) groups"

definition fullMonthPaid :: "GroupRow list \<Rightarrow> js_error + nat" where
  "fullMonthPaid groups =
     and_then
       (js_filter (\<lambda>g.
          and_then (js_Number (js_or (paid_weeks g) (JNumber (Fin 0)))) (\<lambda>paid.
          and_then (js_Number (js_or (weeks_total g) (JNumber (Fin 0)))) (\<lambda>total.
          Inr (js_ge paid total)))) groups)
       (\<lambda>kept. Inr (length kept))"

text \<open>
  \<^verbatim>\<open>groups[0]?.weeks_total ? Number(groups[0].weeks_total) * Number(groups[0].weekly_amount || 0) : 40\<close>:
  on the empty array \<^verbatim>\<open>groups[0]\<close> is undefined, so the condition is undefined, which is
  falsy; otherwise the condition is the truthiness of the first row's \<^verbatim>\<open>weeks_total\<close>.
\<close>

definition targetPerMember :: "GroupRow list \<Rightarrow> js_error + jsnum" where
  "targetPerMember groups =
     (case groups of
        [] \<Rightarrow> Inr (Fin 40)
      | g0 # _ \<Rightarrow>
          (if ToBoolean (weeks_total g0)
           then and_then (js_Number (weeks_total g0)) (\<lambda>total.
                and_then (js_Number (js_or (weekly_amount g0) (JNumber (Fin 0)))) (\<lambda>weekly.
                Inr (js_mul total weekly)))
           else Inr (Fin 40)))"

record FundStats =
  st_members :: nat
  st_monthWeeks :: jsnum
  st_totalCollected :: jsnum
  st_fullMonthPaid :: nat
  st_targetPerMember :: jsnum

definition stats :: "GroupRow list \<Rightarrow> js_error + FundStats" where
  "stats groups =
     and_then (monthWeeks groups) (\<lambda>mw.
     and_then (totalCollected groups) (\<lambda>tc.
     and_then (fullMonthPaid groups) (\<lambda>fm.
     and_then (targetPerMember groups) (\<lambda>tp.
     Inr \<lparr> st_members = members groups,
           st_monthWeeks = mw,
           st_totalCollected = tc,
           st_fullMonthPaid = fm,
           st_targetPerMember = tp \<rparr>))))"


definition paidAmount :: "GroupRow \<Rightarrow> js_error + jsnum" where
  "paidAmount g =
     and_then (js_Number (js_or (paid_weeks g) (JNumber (Fin 0)))) (\<lambda>paidWeeks.
     and_then (js_Number (js_or (weekly_amount g) (JNumber (Fin 0)))) (\<lambda>weekly.
     Inr (js_mul paidWeeks weekly)))"

section \<open>The admin page: \<^verbatim>\<open>AdminPage\<close>\<close>

text \<open>
  The page is a React component: its state is the \<^verbatim>\<open>useState\<close> cells, its functions are
  \<^verbatim>\<open>async\<close> and suspend at every \<^verbatim>\<open>await\<close> of a call on the supabase client. Between two
  suspensions a function runs without interruption and React renders once, so what the
  user sees and can click is the state between two steps of the model: a step is a user
  event, the auth subscription's callback, or the return of an awaited call. The
  identity provider and the record store are outside the page; what they answer is the
  payload of the return event.

  Of the state, \<^verbatim>\<open>emailInput\<close> and \<^verbatim>\<open>sending\<close> belong to \<^verbatim>\<open>sendMagicLink\<close>, which reads and
  writes nothing else but \<^verbatim>\<open>msg\<close> and is left out.
\<close>

record User =
  user_id :: string
  email :: "string option"

record RoleRow =
  role :: string

text \<open>
  A call on the supabase client that a function awaits. \<open>SelectGroups\<close> is the read of
  \<^verbatim>\<open>loadGroups\<close>; it carries the id of the group whose \<^verbatim>\<open>savePaidWeeks\<close> awaits that
  \<^verbatim>\<open>loadGroups\<close>, if one does. \<open>UpdateGroup id v\<close> is
  \<^verbatim>\<open>from("groups").update({ paid_weeks: v }).eq("id", id)\<close>.
\<close>

datatype call =
    GetUser
  | RoleQuery string
  | SelectGroups "string option"
  | UpdateGroup string jsnum
  | AuthSignOut

datatype response =
    UserData "User option"
  | RoleData "RoleRow option"
  | GroupsData "GroupRow list option" "string option"
  | UpdateResult "string option"
  | SignedOut

text \<open>
  \<open>awaiting\<close> holds the calls in flight, \<open>sent\<close> every call made so far, oldest first.
  The \<open>string option\<close> of \<open>GroupsData\<close> and \<open>UpdateResult\<close> is \<^verbatim>\<open>error?.message\<close>.
\<close>

record AdminPage =
  userEmail :: "string option"
  isAdmin :: bool
  msg :: "string option"
  groups :: "GroupRow list"
  loadingGroups :: bool
  savingId :: "string option"
  awaiting :: "call list"
  sent :: "call list"

definition initial :: AdminPage where
  "initial =
     \<lparr> userEmail = None, isAdmin = False, msg = None, groups = [], loadingGroups = False,
       savingId = None, awaiting = [], sent = [] \<rparr>"

definition await :: "call \<Rightarrow> AdminPage \<Rightarrow> AdminPage" where
  "await c s = s\<lparr> awaiting := awaiting s @ [c], sent := sent s @ [c] \<rparr>"

text \<open>\<^verbatim>\<open>const canEdit = useMemo(() => Boolean(userEmail && isAdmin), [userEmail, isAdmin])\<close>\<close>

definition canEdit :: "AdminPage \<Rightarrow> bool" where
  "canEdit s =
     (ToBoolean (case userEmail s of None \<Rightarrow> JNull | Some e \<Rightarrow> JString e) \<and> isAdmin s)"

subsection \<open>\<^verbatim>\<open>refreshAuth\<close>\<close>

text \<open>Line 29: the call of \<^verbatim>\<open>supabase.auth.getUser()\<close>.\<close>

definition refreshAuth_call :: "AdminPage \<Rightarrow> AdminPage" where
  "refreshAuth_call s = await GetUser s"

text \<open>
  Lines 30 to 43, once \<^verbatim>\<open>getUser\<close> has returned \<^verbatim>\<open>data.user\<close>:
  \<^verbatim>\<open>email = data.user?.email ?? null\<close>, then either \<^verbatim>\<open>setIsAdmin(false)\<close> and return, or the
  role query for \<^verbatim>\<open>data.user.id\<close>.
\<close>

definition refreshAuth_user :: "User option \<Rightarrow> AdminPage \<Rightarrow> AdminPage" where
  "refreshAuth_user user s =
     (let email' = (case user of None \<Rightarrow> None | Some u \<Rightarrow> email u);
          s1 = s\<lparr> userEmail := email' \<rparr>
      in case user of
           None \<Rightarrow> s1\<lparr> isAdmin := False \<rparr>
         | Some u \<Rightarrow> await (RoleQuery (user_id u)) s1)"

text \<open>Line 45: \<^verbatim>\<open>setIsAdmin(roleRow?.role === "admin")\<close>.\<close>

definition refreshAuth_role :: "RoleRow option \<Rightarrow> AdminPage \<Rightarrow> AdminPage" where
  "refreshAuth_role roleRow s =
     s\<lparr> isAdmin := (case roleRow of None \<Rightarrow> False | Some r \<Rightarrow> role r = ''admin'') \<rparr>"

subsection \<open>\<^verbatim>\<open>loadGroups\<close>\<close>

text \<open>Lines 49 to 55, up to the awaited read.\<close>

definition loadGroups_call :: "string option \<Rightarrow> AdminPage \<Rightarrow> AdminPage" where
  "loadGroups_call caller s =
     await (SelectGroups caller) (s\<lparr> loadingGroups := True, msg := None \<rparr>)"

text \<open>Lines 57 to 59, once the read has returned \<^verbatim>\<open>{ data, error }\<close>.\<close>

definition loadGroups_return ::
  "GroupRow list option \<Rightarrow> string option \<Rightarrow> AdminPage \<Rightarrow> AdminPage" where
  "loadGroups_return data error s =
     (let s1 = (case error of
                  Some m \<Rightarrow> s\<lparr> msg := Some (''Load error: '' @ m) \<rparr>
                | None \<Rightarrow> s)
      in s1\<lparr> groups := (case data of Some rows \<Rightarrow> rows | None \<Rightarrow> []),
              loadingGroups := False \<rparr>)"

subsection \<open>\<^verbatim>\<open>signOut\<close>\<close>

definition signOut_call :: "AdminPage \<Rightarrow> AdminPage" where
  "signOut_call s = await AuthSignOut s"

definition signOut_return :: "AdminPage \<Rightarrow> AdminPage" where
  "signOut_return s = s\<lparr> groups := [], msg := None \<rparr>"

subsection \<open>\<^verbatim>\<open>savePaidWeeks\<close>\<close>

text \<open>The confirmation of line 112: a check mark (three bytes in UTF-8) and \<^verbatim>\<open> Saved!\<close>.\<close>

definition saved_msg :: string where
  "saved_msg = [CHR 0xE2, CHR 0x9C, CHR 0x85] @ '' Saved!''"

text \<open>Lines 101 to 107, up to the awaited update.\<close>

definition savePaidWeeks_call :: "string \<Rightarrow> jsnum \<Rightarrow> AdminPage \<Rightarrow> AdminPage" where
  "savePaidWeeks_call id' paidWeeks s =
     await (UpdateGroup id' paidWeeks) (s\<lparr> savingId := Some id', msg := None \<rparr>)"

text \<open>
  Lines 109 to 116, once the update has returned \<^verbatim>\<open>{ error }\<close>: on an error the message
  and \<^verbatim>\<open>setSavingId(null)\<close>; otherwise the confirmation and the call of \<^verbatim>\<open>loadGroups()\<close>,
  which runs up to its own await before \<^verbatim>\<open>savePaidWeeks\<close> suspends on it.
\<close>

definition savePaidWeeks_updated :: "string \<Rightarrow> string option \<Rightarrow> AdminPage \<Rightarrow> AdminPage" where
  "savePaidWeeks_updated id' error s =
     (case error of
        Some m \<Rightarrow> (s\<lparr> msg := Some (''Save failed: '' @ m) \<rparr>)\<lparr> savingId := None \<rparr>
      | None \<Rightarrow> loadGroups_call (Some id') (s\<lparr> msg := Some saved_msg \<rparr>))"

text \<open>Line 116, once the awaited \<^verbatim>\<open>loadGroups()\<close> has finished.\<close>

definition savePaidWeeks_reloaded :: "AdminPage \<Rightarrow> AdminPage" where
  "savePaidWeeks_reloaded s = s\<lparr> savingId := None \<rparr>"

subsection \<open>The rendered controls and the events\<close>

text \<open>\<^verbatim>\<open>disabled={!canEdit || savingId === g.id}\<close>, on the input and on the Save button of \<open>g\<close>.\<close>

definition controls_disabled :: "AdminPage \<Rightarrow> GroupRow \<Rightarrow> bool" where
  "controls_disabled s g = (\<not> canEdit s \<or> savingId s = Some (row_id g))"

text \<open>The page renders enabled controls for a group with this id.\<close>

definition save_enabled :: "AdminPage \<Rightarrow> string \<Rightarrow> bool" where
  "save_enabled s id' = list_ex (\<lambda>g. row_id g = id' \<and> \<not> controls_disabled s g) (groups s)"

text \<open>
  \<open>ClickSave id value\<close> and \<open>PressEnter id value\<close>: the Save button of the group is clicked,
  or Enter is pressed in its input, while the input reads \<open>value\<close>; both handlers call
  \<^verbatim>\<open>savePaidWeeks(g.id, Number(value))\<close>. \<open>Mount\<close> is the first effect and
  \<open>AuthStateChange\<close> the callback of \<^verbatim>\<open>onAuthStateChange\<close>; both call \<^verbatim>\<open>refreshAuth()\<close>.
\<close>

datatype event =
    Mount
  | AuthStateChange
  | ClickSave string string
  | PressEnter string string
  | ClickRefresh
  | ClickSignOut
  | Returns call response

text \<open>The continuation of the function that awaits \<open>c\<close>, on the answer \<open>r\<close>.\<close>

fun resume :: "call \<Rightarrow> response \<Rightarrow> AdminPage \<Rightarrow> AdminPage option" where
  "resume GetUser (UserData user) s = Some (refreshAuth_user user s)"
| "resume (RoleQuery uid) (RoleData roleRow) s = Some (refreshAuth_role roleRow s)"
| "resume (SelectGroups caller) (GroupsData data error) s =
     Some (let s1 = loadGroups_return data error s
           in case caller of None \<Rightarrow> s1 | Some id' \<Rightarrow> savePaidWeeks_reloaded s1)"
| "resume (UpdateGroup id' v) (UpdateResult error) s = Some (savePaidWeeks_updated id' error s)"
| "resume AuthSignOut SignedOut s = Some (signOut_return s)"
| "resume c r s = None"

text \<open>
  One event. An event that the rendered page cannot produce (a click on a disabled or
  absent control, an answer to a call that is not in flight) leaves the state as it is.
  The Refresh button is rendered when \<^verbatim>\<open>canEdit\<close>, the Sign out button when \<^verbatim>\<open>userEmail\<close>.
\<close>

fun handle :: "AdminPage \<Rightarrow> event \<Rightarrow> AdminPage" where
  "handle s Mount = refreshAuth_call s"
| "handle s AuthStateChange = refreshAuth_call s"
| "handle s (ClickSave id' v) =
     (if save_enabled s id' then savePaidWeeks_call id' (StringToNumber v) s else s)"
| "handle s (PressEnter id' v) =
     (if save_enabled s id' then savePaidWeeks_call id' (StringToNumber v) s else s)"
| "handle s ClickRefresh = (if canEdit s then loadGroups_call None s else s)"
| "handle s ClickSignOut =
     (if ToBoolean (case userEmail s of None \<Rightarrow> JNull | Some e \<Rightarrow> JString e)
      then signOut_call s else s)"
| "handle s (Returns c r) =
     (if c \<in> set (awaiting s)
      then (case resume c r (s\<lparr> awaiting := remove1 c (awaiting s) \<rparr>) of
              Some s' \<Rightarrow> s' | None \<Rightarrow> s)
      else s)"

text \<open>
  \<^verbatim>\<open>useEffect(() => { if (isAdmin) loadGroups(); }, [isAdmin])\<close>: after the render that follows
  an event, the effect runs if \<^verbatim>\<open>isAdmin\<close> has changed, and loads when it is now true.
\<close>

definition effect_isAdmin :: "AdminPage \<Rightarrow> AdminPage \<Rightarrow> AdminPage" where
  "effect_isAdmin prev s =
     (if isAdmin s \<noteq> isAdmin prev \<and> isAdmin s then loadGroups_call None s else s)"

definition step :: "AdminPage \<Rightarrow> event \<Rightarrow> AdminPage" where
  "step s e = effect_isAdmin s (handle s e)"

definition run :: "AdminPage \<Rightarrow> event list \<Rightarrow> AdminPage" where
  "run s es = foldl step s es"

text \<open>
  \<^verbatim>\<open>refreshAuth()\<close> run to its end from a state \<open>s\<close>: \<^verbatim>\<open>getUser\<close> answers \<open>user\<close> and, when
  there is a user, the role query answers \<open>roleRow\<close>.
\<close>

definition refreshAuth :: "User option \<Rightarrow> RoleRow option \<Rightarrow> AdminPage \<Rightarrow> AdminPage" where
  "refreshAuth user roleRow s =
     (case user of
        None \<Rightarrow> run s [AuthStateChange, Returns GetUser (UserData None)]
      | Some u \<Rightarrow>
          run s [AuthStateChange, Returns GetUser (UserData (Some u)),
                 Returns (RoleQuery (user_id u)) (RoleData roleRow)])"

text \<open>A mutation of the group is in flight: its update, or the reload that its \<^verbatim>\<open>savePaidWeeks\<close> awaits.\<close>

fun mutation_of :: "string \<Rightarrow> call \<Rightarrow> bool" where
  "mutation_of id' (UpdateGroup i v) = (i = id')"
| "mutation_of id' (SelectGroups caller) = (caller = Some id')"
| "mutation_of id' c = False"

definition in_flight :: "AdminPage \<Rightarrow> string \<Rightarrow> bool" where
  "in_flight s id' = list_ex (mutation_of id') (awaiting s)"




section \<open>The statements of the specification, in its own words\<close>

text \<open>
  The specification speaks of a group's \<open>paidWeeks\<close>, \<open>weeksTotal\<close> and \<open>weeklyAmount\<close> as
  numbers, a missing or non-numeric field counting as zero. \<open>spec_value\<close> is that reading
  of a field: the number it holds when it holds a finite number, zero otherwise. The
  specification's sums, products and quotients are those of exact arithmetic.
\<close>

fun spec_value :: "jsval \<Rightarrow> rat" where
  "spec_value (JNumber (Fin r)) = r"
| "spec_value v = 0"

text \<open>
  The field values of a row whose column is numeric and nullable: a finite number, the
  number NaN, \<^verbatim>\<open>null\<close>, or no value at all.
\<close>

fun numeric_or_missing :: "jsval \<Rightarrow> bool" where
  "numeric_or_missing JUndefined = True"
| "numeric_or_missing JNull = True"
| "numeric_or_missing (JNumber (Fin r)) = True"
| "numeric_or_missing (JNumber NaN) = True"
| "numeric_or_missing v = False"

text \<open>
  A whole number: a non-negative integer. Week counts are whole numbers, and so are
  amounts in whole currency units.
\<close>

definition is_whole :: "rat \<Rightarrow> bool" where
  "is_whole r = (0 \<le> r \<and> of_int \<lfloor>r\<rfloor> = r)"

definition whole_or_missing :: "jsval \<Rightarrow> bool" where
  "whole_or_missing v = (numeric_or_missing v \<and> is_whole (spec_value v))"

text \<open>\<^verbatim>\<open>Number.MAX_SAFE_INTEGER\<close>: up to it, every whole number is a double.\<close>

definition MAX_SAFE_INTEGER :: rat where
  "MAX_SAFE_INTEGER = 2 ^ 53 - 1"

fun is_symbol :: "jsval \<Rightarrow> bool" where
  "is_symbol (JSymbol d) = True"
| "is_symbol v = False"

text \<open>\<open>totalCollected\<close> in the specification's words: the sum over all groups of \<open>paidWeeks \<times> weeklyAmount\<close>.\<close>

definition spec_totalCollected :: "GroupRow list \<Rightarrow> rat" where
  "spec_totalCollected gs =
     (\<Sum>g\<leftarrow>gs. spec_value (paid_weeks g) * spec_value (weekly_amount g))"


text \<open>A row with the given id, weekly amount, weeks total and paid weeks, for the examples.\<close>

abbreviation group_row :: "string \<Rightarrow> jsval \<Rightarrow> jsval \<Rightarrow> jsval \<Rightarrow> GroupRow" where
  "group_row i w t p \<equiv>
     \<lparr> row_id = i, name = i, weekly_amount = w, weeks_total = t, paid_weeks = p,
       updated_at = ''2024-01-01'' \<rparr>"

abbreviation num :: "rat \<Rightarrow> jsval" where
  "num r \<equiv> JNumber (Fin r)"

text \<open>
  The specification's session "holds the authenticated email or is absent": a session is
  present when the identity provider answers with a user that holds an email. (The page
  itself shows "Not signed in" for any other answer.)
\<close>

definition session_present :: "User option \<Rightarrow> bool" where
  "session_present user =
     (case user of
        None \<Rightarrow> False
      | Some u \<Rightarrow> (case email u of None \<Rightarrow> False | Some e \<Rightarrow> e \<noteq> []))"

text \<open>The role lookup returned admin; a lookup miss is no row at all.\<close>

definition role_is_admin :: "RoleRow option \<Rightarrow> bool" where
  "role_is_admin roleRow = (case roleRow of None \<Rightarrow> False | Some r \<Rightarrow> role r = ''admin'')"

text \<open>
  The events of an admin signing in on a fresh page: mount, the user, the admin role,
  and the answer \<open>rows\<close> to the load that the \<^verbatim>\<open>isAdmin\<close> effect starts.
\<close>

abbreviation admin_session :: "GroupRow list \<Rightarrow> event list" where
  "admin_session rows \<equiv>
     [Mount,
      Returns GetUser
        (UserData (Some \<lparr> user_id = ''u1'', email = Some ''admin@example.org'' \<rparr>)),
      Returns (RoleQuery ''u1'') (RoleData (Some \<lparr> role = ''admin'' \<rparr>)),
      Returns (SelectGroups None) (GroupsData (Some rows) None)]"


abbreviation two_groups :: "GroupRow list" where
  "two_groups \<equiv>
     [group_row ''a'' (num 10) (num 4) (num 2), group_row ''b'' (num 10) (num 4) (num 0)]"


section \<open>Rounding\<close>

lemma round_half_even_of_int: "round_half_even (of_int n) = n"
  by (simp add: round_half_even_def)


lemma quotient_of_pos:
  assumes "0 < x"
  shows "0 < fst (quotient_of x)" "0 < snd (quotient_of x)"
    "x = of_int (fst (quotient_of x)) / of_int (snd (quotient_of x))"
proof -
  obtain p q where pq: "quotient_of x = (p, q)" by (cases "quotient_of x")
  have q: "0 < q" using pq by (rule quotient_of_denom_pos)
  have x: "x = of_int p / of_int q" using pq by (rule quotient_of_div)
  have "0 < p" using assms q x by (simp add: zero_less_divide_iff)
  then show "0 < fst (quotient_of x)" "0 < snd (quotient_of x)"
    "x = of_int (fst (quotient_of x)) / of_int (snd (quotient_of x))"
    using pq q x by simp_all
qed

lemma bitlen_powi_bounds:
  assumes "0 < (p::int)"
  shows "2 powi (bitlen p - 1) \<le> (of_int p :: rat)" "(of_int p :: rat) < 2 powi (bitlen p)"
proof -
  have b: "1 \<le> bitlen p" using assms by (auto simp: bitlen_alt_def)
  have "2 ^ nat (bitlen p - 1) \<le> p" "p < 2 ^ nat (bitlen p)"
    using bitlen_bounds [OF assms] by simp_all
  then have "(of_int (2 ^ nat (bitlen p - 1)) :: rat) \<le> of_int p"
    "(of_int p :: rat) < of_int (2 ^ nat (bitlen p))"
    by (simp_all only: of_int_le_iff of_int_less_iff)
  then show "2 powi (bitlen p - 1) \<le> (of_int p :: rat)" "(of_int p :: rat) < 2 powi (bitlen p)"
    using b by (simp_all add: power_int_def)
qed

text \<open>\<open>floor_log2\<close> is the exponent of the binade of \<open>x\<close>.\<close>

lemma floor_log2_bounds:
  assumes "0 < x"
  shows "2 powi (floor_log2 x) \<le> x" "x < 2 powi (floor_log2 x + 1)"
proof -
  define p where "p = fst (quotient_of x)"
  define q where "q = snd (quotient_of x)"
  have p: "0 < p" and q: "0 < q" and x: "x = of_int p / of_int q"
    using quotient_of_pos [OF assms] by (simp_all add: p_def q_def)
  define e0 where "e0 = bitlen p - bitlen q"
  have q': "(0::rat) < of_int q" using q by simp
  have "x < 2 powi (bitlen p) / 2 powi (bitlen q - 1)"
  proof -
    have "x < 2 powi (bitlen p) / of_int q"
      unfolding x using bitlen_powi_bounds(2) [OF p] q' by (simp add: divide_strict_right_mono)
    also have "\<dots> \<le> 2 powi (bitlen p) / 2 powi (bitlen q - 1)"
      using bitlen_powi_bounds(1) [OF q] q' by (intro divide_left_mono mult_pos_pos) simp_all
    finally show ?thesis .
  qed
  also have "2 powi (bitlen p) / 2 powi (bitlen q - 1) = (2::rat) powi (e0 + 1)"
    by (simp add: e0_def power_int_diff [symmetric] algebra_simps)
  finally have up: "x < 2 powi (e0 + 1)" .
  have "2 powi (bitlen p - 1) / 2 powi (bitlen q) \<le> of_int p / (2 powi (bitlen q) :: rat)"
    using bitlen_powi_bounds(1) [OF p] by (intro divide_right_mono) simp_all
  also have "\<dots> \<le> x"
    unfolding x using bitlen_powi_bounds(2) [OF q] p q'
    by (intro divide_left_mono mult_pos_pos) simp_all
  finally have "2 powi (bitlen p - 1) / 2 powi (bitlen q) \<le> x" .
  moreover have "2 powi (bitlen p - 1) / 2 powi (bitlen q) = (2::rat) powi (e0 - 1)"
    by (simp add: e0_def power_int_diff [symmetric] algebra_simps)
  ultimately have lo: "2 powi (e0 - 1) \<le> x" by simp
  have fl: "floor_log2 x = (if 2 powi e0 \<le> x then e0 else e0 - 1)"
    by (simp add: floor_log2_def e0_def p_def q_def Let_def)
  show "2 powi (floor_log2 x) \<le> x" "x < 2 powi (floor_log2 x + 1)"
    using up lo by (auto simp add: fl)
qed

lemma powi2_less_cancel: "(2::rat) powi a < 2 powi b \<Longrightarrow> a < b"
  using power_int_increasing [of b a "2::rat"] by (cases "a < b") auto

lemma floor_log2_range:
  assumes "2 powi lo \<le> x" and "x < 2 powi hi"
  shows "lo \<le> floor_log2 x" "floor_log2 x < hi"
proof -
  have x: "0 < x"
    using assms(1) by (meson less_le_trans zero_less_numeral zero_less_power_int)
  have "(2::rat) powi lo < 2 powi (floor_log2 x + 1)"
    using assms(1) floor_log2_bounds(2) [OF x] by simp
  then have "lo < floor_log2 x + 1"
    by (rule powi2_less_cancel)
  then show "lo \<le> floor_log2 x" by simp
  have "(2::rat) powi (floor_log2 x) < 2 powi hi"
    using assms(2) floor_log2_bounds(1) [OF x] by simp
  then show "floor_log2 x < hi"
    by (rule powi2_less_cancel)
qed

lemma round_to_double_normal:
  assumes "0 < x" and "- 1022 \<le> floor_log2 x" and "floor_log2 x \<le> 1022"
  shows "round_to_double x =
           Fin (of_int (round_half_even (x / 2 powi (floor_log2 x - 52)))
                * 2 powi (floor_log2 x - 52))"
  using assms by (simp add: round_to_double_def Let_def max_def)



text \<open>A positive integer below \<open>2\<^sup>5\<^sup>3\<close> is a double.\<close>

lemma round_to_double_int_pos:
  assumes "0 < k" and "k < 2 ^ 53"
  shows "round_to_double (of_int k) = Fin (of_int k)"
proof -
  define x :: rat where "x = of_int k"
  have x: "0 < x" "2 powi 0 \<le> x" "x < 2 powi 53"
    using assms by (simp_all add: x_def)
  define e where "e = floor_log2 x"
  have e: "0 \<le> e" "e < 53"
    using floor_log2_range [OF x(2,3)] by (simp_all add: e_def)
  have q: "(2::rat) powi (e - 52) = 1 / 2 ^ nat (52 - e)"
    using e by (simp add: power_int_def field_simps)
  have "x / 2 powi (e - 52) = of_int (k * 2 ^ nat (52 - e))"
    by (simp add: q x_def)
  then have "round_half_even (x / 2 powi (e - 52)) = k * 2 ^ nat (52 - e)"
    by (simp only: round_half_even_of_int)
  then have "round_to_double x = Fin (of_int (k * 2 ^ nat (52 - e)) * (1 / 2 ^ nat (52 - e)))"
    using round_to_double_normal [of x] x(1) e by (simp add: e_def [symmetric] q)
  then show ?thesis by (simp add: x_def)
qed

lemma is_whole_iff: "is_whole r \<longleftrightarrow> (\<exists>k\<ge>0. r = of_int k)"
proof
  assume "is_whole r"
  then have r: "0 \<le> r" "of_int \<lfloor>r\<rfloor> = r"
    unfolding is_whole_def by blast+
  from r(1) have "0 \<le> \<lfloor>r\<rfloor>" by simp
  then show "\<exists>k\<ge>0. r = of_int k" using r(2) by metis
next
  assume "\<exists>k\<ge>0. r = of_int k"
  then show "is_whole r" by (auto simp add: is_whole_def)
qed

lemma is_whole_add: "is_whole a \<Longrightarrow> is_whole b \<Longrightarrow> is_whole (a + b)"
  unfolding is_whole_iff by (metis add_nonneg_nonneg of_int_add)

lemma is_whole_mult: "is_whole a \<Longrightarrow> is_whole b \<Longrightarrow> is_whole (a * b)"
  unfolding is_whole_iff by (metis mult_nonneg_nonneg of_int_mult)

lemma is_whole_nonneg: "is_whole a \<Longrightarrow> 0 \<le> a"
  by (simp add: is_whole_def)

text \<open>Up to \<^verbatim>\<open>Number.MAX_SAFE_INTEGER\<close> a whole number is a double: rounding leaves it as it is.\<close>

lemma round_to_double_whole:
  assumes "is_whole r" and "r \<le> MAX_SAFE_INTEGER"
  shows "round_to_double r = Fin r"
proof -
  obtain k where k: "0 \<le> k" "r = of_int k"
    using assms(1) by (auto simp add: is_whole_iff)
  have "(of_int k :: rat) \<le> of_int (2 ^ 53 - 1)"
    using assms(2) k by (simp add: MAX_SAFE_INTEGER_def)
  then have "k \<le> 2 ^ 53 - 1"
    by (simp only: of_int_le_iff)
  then have b: "k < 2 ^ 53" by simp
  show ?thesis
  proof (cases "k = 0")
    case True
    then show ?thesis using k by (simp add: round_to_double_def)
  next
    case False
    then have "0 < k" using k by simp
    then show ?thesis using round_to_double_int_pos b k by simp
  qed
qed

section \<open>The fund metrics\<close>

subsection \<open>Coercion and the arithmetic of finite numbers\<close>

lemma coerce_numeric_or_missing:
  "numeric_or_missing v \<Longrightarrow> js_Number (js_or v (JNumber (Fin 0))) = Inr (Fin (spec_value v))"
  by (induction v rule: numeric_or_missing.induct) (simp_all add: js_or_def)

lemma coerce_not_symbol:
  "\<not> is_symbol v \<Longrightarrow> \<exists>n. js_Number (js_or v (JNumber (Fin 0))) = Inr n"
  by (cases v) (simp_all add: js_or_def)

lemma max2_Fin: "max2 (Fin a) (Fin b) = Fin (max a b)"
  by (simp add: max2_def max_def)


lemma foldl_max2_Fin:
  "foldl max2 (Fin a) (map Fin xs) = Fin (Max (insert a (set xs)))"
proof (induction xs arbitrary: a)
  case Nil
  then show ?case by simp
next
  case (Cons x xs)
  have "Max (insert (max a x) (set xs)) = Max (insert a (insert x (set xs)))"
    by (metis List.finite_set Max_insert Max_singleton finite_insert insert_not_empty
        max.assoc)
  then show ?case using Cons by (simp add: max2_Fin)
qed

lemma spec_totalCollected_whole:
  "list_all (\<lambda>g. whole_or_missing (paid_weeks g) \<and> whole_or_missing (weekly_amount g)) gs \<Longrightarrow>
   is_whole (spec_totalCollected gs)"
proof (induction gs)
  case Nil
  then show ?case by (simp add: spec_totalCollected_def is_whole_def)
next
  case (Cons g gs)
  then show ?case
    using is_whole_add is_whole_mult
    by (simp add: spec_totalCollected_def whole_or_missing_def)
qed

text \<open>The reduction with the coercions resolved: the sum in double arithmetic, left to right.\<close>

lemma totalCollected_reduce:
  "list_all (\<lambda>g. numeric_or_missing (paid_weeks g) \<and> numeric_or_missing (weekly_amount g)) gs \<Longrightarrow>
   js_reduce (\<lambda>sum g.
        and_then (js_Number (js_or (paid_weeks g) (JNumber (Fin 0)))) (\<lambda>paidWeeks.
        and_then (js_Number (js_or (weekly_amount g) (JNumber (Fin 0)))) (\<lambda>weekly.
        Inr (js_add sum (js_mul paidWeeks weekly))))) acc gs
   = Inr (foldl (\<lambda>sum g. js_add sum (js_mul (Fin (spec_value (paid_weeks g)))
                                            (Fin (spec_value (weekly_amount g))))) acc gs)"
  by (induction gs arbitrary: acc) (simp_all add: coerce_numeric_or_missing and_then_def)

text \<open>On whole numbers whose sum is a safe integer, no step of that sum rounds.\<close>

lemma double_sum_exact:
  assumes "list_all (\<lambda>g. whole_or_missing (paid_weeks g) \<and> whole_or_missing (weekly_amount g)) gs"
    and "is_whole a" and "a + spec_totalCollected gs \<le> MAX_SAFE_INTEGER"
  shows "foldl (\<lambda>sum g. js_add sum (js_mul (Fin (spec_value (paid_weeks g)))
                                          (Fin (spec_value (weekly_amount g))))) (Fin a) gs
         = Fin (a + spec_totalCollected gs)"
  using assms
proof (induction gs arbitrary: a)
  case Nil
  then show ?case by (simp add: spec_totalCollected_def)
next
  case (Cons g gs)
  define x where "x = spec_value (paid_weeks g) * spec_value (weekly_amount g)"
  have tot: "spec_totalCollected (g # gs) = x + spec_totalCollected gs"
    by (simp add: spec_totalCollected_def x_def)
  have rest: "list_all (\<lambda>g. whole_or_missing (paid_weeks g) \<and> whole_or_missing (weekly_amount g)) gs"
    using Cons.prems(1) by simp
  have x: "is_whole x"
    using Cons.prems(1) is_whole_mult by (simp add: x_def whole_or_missing_def)
  have r: "0 \<le> spec_totalCollected gs"
    using spec_totalCollected_whole [OF rest] by (rule is_whole_nonneg)
  have a: "0 \<le> a" using Cons.prems(2) by (rule is_whole_nonneg)
  have bound: "a + x + spec_totalCollected gs \<le> MAX_SAFE_INTEGER"
    using Cons.prems(3) by (simp add: tot add.assoc)
  have "x \<le> MAX_SAFE_INTEGER" using bound a r by linarith
  then have mul: "round_to_double x = Fin x"
    using x by (rule round_to_double_whole [rotated])
  have ax: "is_whole (a + x)" using Cons.prems(2) x by (rule is_whole_add)
  have "a + x \<le> MAX_SAFE_INTEGER" using bound r by linarith
  then have add: "round_to_double (a + x) = Fin (a + x)"
    using ax by (rule round_to_double_whole [rotated])
  have "foldl (\<lambda>sum g. js_add sum (js_mul (Fin (spec_value (paid_weeks g)))
                                          (Fin (spec_value (weekly_amount g))))) (Fin (a + x)) gs
         = Fin (a + x + spec_totalCollected gs)"
    using rest ax bound by (rule Cons.IH)
  then show ?case
    using mul add by (simp add: tot x_def [symmetric] add.assoc)
qed

lemma totalCollected_returns:
  "list_all (\<lambda>g. \<not> is_symbol (paid_weeks g) \<and> \<not> is_symbol (weekly_amount g)) gs \<Longrightarrow>
   \<exists>v. js_reduce (\<lambda>sum g.
        and_then (js_Number (js_or (paid_weeks g) (JNumber (Fin 0)))) (\<lambda>paidWeeks.
        and_then (js_Number (js_or (weekly_amount g) (JNumber (Fin 0)))) (\<lambda>weekly.
        Inr (js_add sum (js_mul paidWeeks weekly))))) acc gs = Inr v"
proof (induction gs arbitrary: acc)
  case Nil
  then show ?case by simp
next
  case (Cons g gs)
  have "\<not> is_symbol (paid_weeks g)" "\<not> is_symbol (weekly_amount g)"
    using Cons.prems by simp_all
  then obtain p w where
    "js_Number (js_or (paid_weeks g) (JNumber (Fin 0))) = Inr p"
    "js_Number (js_or (weekly_amount g) (JNumber (Fin 0))) = Inr w"
    using coerce_not_symbol by blast
  then show ?case
    using Cons by (simp add: and_then_def)
qed

lemma whole_fields_numeric:
  "list_all (\<lambda>g. whole_or_missing (paid_weeks g) \<and> whole_or_missing (weekly_amount g)) gs \<Longrightarrow>
   list_all (\<lambda>g. numeric_or_missing (paid_weeks g) \<and> numeric_or_missing (weekly_amount g)) gs"
  by (induction gs) (simp_all add: whole_or_missing_def)

subsection \<open>\<open>totalCollected\<close>\<close>

text \<open>
  C1 (as amended). For every group collection whose \<open>paid_weeks\<close> and \<open>weekly_amount\<close>
  fields are each a finite number, NaN or missing (\<^verbatim>\<open>undefined\<close>, \<^verbatim>\<open>null\<close>),
  \<open>totalCollected\<close> is the sum over the groups, left to right and in double arithmetic,
  of \<open>paidWeeks \<times> weeklyAmount\<close>, a missing or NaN field counting as zero; when the fields
  are whole numbers and the sum is at most \<^verbatim>\<open>Number.MAX_SAFE_INTEGER\<close>, it is exactly that
  sum; \<open>totalCollected\<close> of the empty collection is 0; and on no collection whose fields
  hold no symbol does the computation throw.
\<close>

theorem totalCollected_sum:
  "(list_all (\<lambda>g. numeric_or_missing (paid_weeks g) \<and> numeric_or_missing (weekly_amount g)) gs
      \<longrightarrow> totalCollected gs =
            Inr (foldl (\<lambda>sum g. js_add sum (js_mul (Fin (spec_value (paid_weeks g)))
                                                    (Fin (spec_value (weekly_amount g)))))
                   (Fin 0) gs))
   \<and> (list_all (\<lambda>g. whole_or_missing (paid_weeks g) \<and> whole_or_missing (weekly_amount g)) gs
        \<and> spec_totalCollected gs \<le> MAX_SAFE_INTEGER
      \<longrightarrow> totalCollected gs = Inr (Fin (spec_totalCollected gs)))
   \<and> totalCollected [] = Inr (Fin 0)
   \<and> (list_all (\<lambda>g. \<not> is_symbol (paid_weeks g) \<and> \<not> is_symbol (weekly_amount g)) gs
      \<longrightarrow> (\<exists>v. totalCollected gs = Inr v))"
proof -
  have exact: "totalCollected gs = Inr (Fin (spec_totalCollected gs))"
    if w: "list_all (\<lambda>g. whole_or_missing (paid_weeks g) \<and> whole_or_missing (weekly_amount g)) gs"
      and b: "spec_totalCollected gs \<le> MAX_SAFE_INTEGER"
  proof -
    have "is_whole 0" by (simp add: is_whole_def)
    then have "foldl (\<lambda>sum g. js_add sum (js_mul (Fin (spec_value (paid_weeks g)))
                                          (Fin (spec_value (weekly_amount g))))) (Fin 0) gs
         = Fin (0 + spec_totalCollected gs)"
      using w b by (intro double_sum_exact) simp_all
    then show ?thesis
      using totalCollected_reduce [OF whole_fields_numeric [OF w]]
      by (simp add: totalCollected_def)
  qed
  show ?thesis
    using exact totalCollected_reduce [of gs "Fin 0"] totalCollected_returns [of gs "Fin 0"]
    by (simp add: totalCollected_def)
qed

text \<open>
  The theorem at two groups, the second with \<open>paid_weeks\<close> null and \<open>weekly_amount\<close>
  absent: 4 \<times> 10 + 0 \<times> 0 = 40.
\<close>

theorem totalCollected_sum_witness:
  "list_all (\<lambda>g. numeric_or_missing (paid_weeks g) \<and> numeric_or_missing (weekly_amount g))
     [group_row ''a'' (num 10) (num 4) (num 4), group_row ''b'' JUndefined (num 4) JNull]
   \<and> list_all (\<lambda>g. whole_or_missing (paid_weeks g) \<and> whole_or_missing (weekly_amount g))
     [group_row ''a'' (num 10) (num 4) (num 4), group_row ''b'' JUndefined (num 4) JNull]
   \<and> spec_totalCollected
       [group_row ''a'' (num 10) (num 4) (num 4), group_row ''b'' JUndefined (num 4) JNull]
     \<le> MAX_SAFE_INTEGER
   \<and> list_all (\<lambda>g. \<not> is_symbol (paid_weeks g) \<and> \<not> is_symbol (weekly_amount g))
     [group_row ''a'' (num 10) (num 4) (num 4), group_row ''b'' JUndefined (num 4) JNull]
   \<and> totalCollected
       [group_row ''a'' (num 10) (num 4) (num 4), group_row ''b'' JUndefined (num 4) JNull]
     = Inr (Fin 40)"
proof -
  have h1: "list_all (\<lambda>g. numeric_or_missing (paid_weeks g) \<and> numeric_or_missing (weekly_amount g))
     [group_row ''a'' (num 10) (num 4) (num 4), group_row ''b'' JUndefined (num 4) JNull]"
    by simp
  have h2: "list_all (\<lambda>g. whole_or_missing (paid_weeks g) \<and> whole_or_missing (weekly_amount g))
     [group_row ''a'' (num 10) (num 4) (num 4), group_row ''b'' JUndefined (num 4) JNull]"
    by (simp add: whole_or_missing_def is_whole_def)
  have h3: "spec_totalCollected
       [group_row ''a'' (num 10) (num 4) (num 4), group_row ''b'' JUndefined (num 4) JNull] = 40"
    by (simp add: spec_totalCollected_def)
  have h4: "list_all (\<lambda>g. \<not> is_symbol (paid_weeks g) \<and> \<not> is_symbol (weekly_amount g))
     [group_row ''a'' (num 10) (num 4) (num 4), group_row ''b'' JUndefined (num 4) JNull]"
    by simp
  have h5: "spec_totalCollected
       [group_row ''a'' (num 10) (num 4) (num 4), group_row ''b'' JUndefined (num 4) JNull]
     \<le> MAX_SAFE_INTEGER"
    unfolding h3 by (simp add: MAX_SAFE_INTEGER_def)
  have "totalCollected
       [group_row ''a'' (num 10) (num 4) (num 4), group_row ''b'' JUndefined (num 4) JNull]
     = Inr (Fin (spec_totalCollected
         [group_row ''a'' (num 10) (num 4) (num 4), group_row ''b'' JUndefined (num 4) JNull]))"
    using totalCollected_sum
      [of "[group_row ''a'' (num 10) (num 4) (num 4), group_row ''b'' JUndefined (num 4) JNull]"]
      h2 h5
    by blast
  then have "totalCollected
       [group_row ''a'' (num 10) (num 4) (num 4), group_row ''b'' JUndefined (num 4) JNull]
     = Inr (Fin 40)"
    by (simp only: h3)
  then show ?thesis
    using h1 h2 h4 h5 by blast
qed

text \<open>
  The claim as the specification states it fails on a field holding text:
  \<^verbatim>\<open>"abc" || 0\<close> is \<^verbatim>\<open>"abc"\<close>, \<^verbatim>\<open>Number("abc")\<close> is NaN, and the NaN absorbs the whole sum, where
  the specification's sum is 0 \<times> 10 = 0. It also fails by rounding: 3 weeks at the double
  nearest to 0.1 give 0.30000000000000004, which is not 3 times that amount.
\<close>

theorem totalCollected_text_counterexample:
  "totalCollected [group_row ''a'' (num 10) (num 4) (JString ''abc'')] = Inr NaN
   \<and> spec_totalCollected [group_row ''a'' (num 10) (num 4) (JString ''abc'')] = 0
   \<and> totalCollected
       [group_row ''a'' (num (3602879701896397 / 36028797018963968)) (num 4) (num 3)]
     = Inr (Fin (1351079888211149 / 4503599627370496))
   \<and> spec_totalCollected
       [group_row ''a'' (num (3602879701896397 / 36028797018963968)) (num 4) (num 3)]
     = 10808639105689191 / 36028797018963968"
  by code_simp

subsection \<open>The progress percentage\<close>






subsection \<open>\<open>targetPerMember\<close>\<close>

text \<open>
  C6 (as amended). \<open>targetPerMember\<close> is the fallback 40 when no groups exist. On a
  non-empty collection whose first group has a \<open>weeks_total\<close> and a \<open>weekly_amount\<close> that
  are numbers or missing, it is the fallback 40 when that \<open>weeks_total\<close> is zero, NaN or
  missing, and otherwise \<open>weeksTotal \<times> weeklyAmount\<close> of that group in double arithmetic:
  exactly the product when both are whole numbers and the product is at most
  \<^verbatim>\<open>Number.MAX_SAFE_INTEGER\<close>.
\<close>

theorem targetPerMember_first_group:
  "targetPerMember [] = Inr (Fin 40)
   \<and> (numeric_or_missing (weeks_total g) \<and> numeric_or_missing (weekly_amount g) \<longrightarrow>
        targetPerMember (g # gs) =
          Inr (if spec_value (weeks_total g) = 0 then Fin 40
               else js_mul (Fin (spec_value (weeks_total g)))
                           (Fin (spec_value (weekly_amount g)))))
   \<and> (whole_or_missing (weeks_total g) \<and> whole_or_missing (weekly_amount g)
        \<and> spec_value (weeks_total g) \<noteq> 0
        \<and> spec_value (weeks_total g) * spec_value (weekly_amount g) \<le> MAX_SAFE_INTEGER \<longrightarrow>
        targetPerMember (g # gs) =
          Inr (Fin (spec_value (weeks_total g) * spec_value (weekly_amount g))))"
proof -
  have general: "targetPerMember (g # gs) =
          Inr (if spec_value (weeks_total g) = 0 then Fin 40
               else js_mul (Fin (spec_value (weeks_total g)))
                           (Fin (spec_value (weekly_amount g))))"
    if "numeric_or_missing (weeks_total g)" and w: "numeric_or_missing (weekly_amount g)"
    using that(1)
    by (induction "weeks_total g" rule: numeric_or_missing.induct)
      (simp_all add: targetPerMember_def coerce_numeric_or_missing [OF w] and_then_def
        eq_commute [of _ "weeks_total g"])
  have exact: "js_mul (Fin (spec_value (weeks_total g))) (Fin (spec_value (weekly_amount g)))
      = Fin (spec_value (weeks_total g) * spec_value (weekly_amount g))"
    if "whole_or_missing (weeks_total g)" "whole_or_missing (weekly_amount g)"
      "spec_value (weeks_total g) * spec_value (weekly_amount g) \<le> MAX_SAFE_INTEGER"
    using that round_to_double_whole is_whole_mult by (simp add: whole_or_missing_def)
  show ?thesis
    using general exact by (auto simp add: targetPerMember_def whole_or_missing_def)
qed

text \<open>The theorem at a first group of 5 weeks at 10 a week: 5 \<times> 10 = 50.\<close>

theorem targetPerMember_first_group_witness:
  "whole_or_missing (weeks_total (group_row ''a'' (num 10) (num 5) (num 2)))
   \<and> whole_or_missing (weekly_amount (group_row ''a'' (num 10) (num 5) (num 2)))
   \<and> spec_value (weeks_total (group_row ''a'' (num 10) (num 5) (num 2)))
       * spec_value (weekly_amount (group_row ''a'' (num 10) (num 5) (num 2)))
     \<le> MAX_SAFE_INTEGER
   \<and> targetPerMember [group_row ''a'' (num 10) (num 5) (num 2)] = Inr (Fin 50)"
proof -
  have "whole_or_missing (weeks_total (group_row ''a'' (num 10) (num 5) (num 2)))
      \<and> whole_or_missing (weekly_amount (group_row ''a'' (num 10) (num 5) (num 2)))
      \<and> spec_value (weeks_total (group_row ''a'' (num 10) (num 5) (num 2))) \<noteq> 0
      \<and> spec_value (weeks_total (group_row ''a'' (num 10) (num 5) (num 2)))
          * spec_value (weekly_amount (group_row ''a'' (num 10) (num 5) (num 2)))
        \<le> MAX_SAFE_INTEGER \<longrightarrow>
      targetPerMember [group_row ''a'' (num 10) (num 5) (num 2)] =
        Inr (Fin (spec_value (weeks_total (group_row ''a'' (num 10) (num 5) (num 2)))
                  * spec_value (weekly_amount (group_row ''a'' (num 10) (num 5) (num 2)))))"
    using targetPerMember_first_group [of "group_row ''a'' (num 10) (num 5) (num 2)" "[]"]
    by blast
  then show ?thesis
    by (simp add: whole_or_missing_def is_whole_def MAX_SAFE_INTEGER_def)
qed

text \<open>
  The claim as stated fails on a non-empty collection whose first group has
  \<open>weeks_total = 0\<close>: the condition \<^verbatim>\<open>groups[0]?.weeks_total\<close> is falsy, so the result is the
  fallback 40, not 0 \<times> 10 = 0. Nor is the value 40 a sign of an empty collection: a first
  group of 4 weeks at 10 a week gives 40 as well. And the product is rounded: 3 weeks at
  the double nearest to 0.1 give 0.30000000000000004, which is not 3 times that amount.
\<close>

theorem targetPerMember_zero_weeks_counterexample:
  "targetPerMember [group_row ''a'' (num 10) (num 0) (num 0)] = Inr (Fin 40)
   \<and> spec_value (weeks_total (group_row ''a'' (num 10) (num 0) (num 0)))
       * spec_value (weekly_amount (group_row ''a'' (num 10) (num 0) (num 0))) = 0
   \<and> targetPerMember [group_row ''b'' (num 10) (num 4) (num 0)] = Inr (Fin 40)
   \<and> targetPerMember
       [group_row ''c'' (num (3602879701896397 / 36028797018963968)) (num 3) (num 0)]
     = Inr (Fin (1351079888211149 / 4503599627370496))
   \<and> spec_value (weeks_total
         (group_row ''c'' (num (3602879701896397 / 36028797018963968)) (num 3) (num 0)))
       * spec_value (weekly_amount
         (group_row ''c'' (num (3602879701896397 / 36028797018963968)) (num 3) (num 0)))
     = 10808639105689191 / 36028797018963968"
  by code_simp

subsection \<open>\<open>fullMonthPaid\<close>\<close>

lemma fullMonthPaid_filter:
  "list_all (\<lambda>g. numeric_or_missing (paid_weeks g) \<and> numeric_or_missing (weeks_total g)) gs \<Longrightarrow>
   js_filter (\<lambda>g.
      and_then (js_Number (js_or (paid_weeks g) (JNumber (Fin 0)))) (\<lambda>paid.
      and_then (js_Number (js_or (weeks_total g) (JNumber (Fin 0)))) (\<lambda>total.
      Inr (js_ge paid total)))) gs
   = Inr (filter (\<lambda>g. spec_value (weeks_total g) \<le> spec_value (paid_weeks g)) gs)"
  by (induction gs) (auto simp add: coerce_numeric_or_missing and_then_def js_ge_def)

text \<open>
  C7. \<open>fullMonthPaid\<close> is the number of groups whose paid weeks are at least their weeks
  total (fields numeric, a missing one counting as zero); the two groups
  \<open>{paid: 4, total: 4}\<close> and \<open>{paid: 2, total: 4}\<close> give 1.
\<close>

theorem fullMonthPaid_counts:
  "(list_all (\<lambda>g. numeric_or_missing (paid_weeks g) \<and> numeric_or_missing (weeks_total g)) gs
      \<longrightarrow> fullMonthPaid gs =
            Inr (length (filter (\<lambda>g. spec_value (weeks_total g) \<le> spec_value (paid_weeks g)) gs)))
   \<and> fullMonthPaid
       [group_row ''a'' (num 10) (num 4) (num 4), group_row ''b'' (num 10) (num 4) (num 2)]
     = Inr 1"
proof -
  have "fullMonthPaid gs =
          Inr (length (filter (\<lambda>g. spec_value (weeks_total g) \<le> spec_value (paid_weeks g)) gs))"
    if "list_all (\<lambda>g. numeric_or_missing (paid_weeks g) \<and> numeric_or_missing (weeks_total g)) gs"
    using fullMonthPaid_filter [OF that] by (simp add: fullMonthPaid_def and_then_def)
  moreover have "fullMonthPaid
       [group_row ''a'' (num 10) (num 4) (num 4), group_row ''b'' (num 10) (num 4) (num 2)]
     = Inr 1"
    by (simp add: fullMonthPaid_def js_or_def js_ge_def and_then_def)
  ultimately show ?thesis by simp
qed

text \<open>The theorem at three groups, one of them with no \<open>paid_weeks\<close>: two are fully paid.\<close>

theorem fullMonthPaid_counts_witness:
  "list_all (\<lambda>g. numeric_or_missing (paid_weeks g) \<and> numeric_or_missing (weeks_total g))
     [group_row ''a'' (num 10) (num 4) (num 4), group_row ''b'' (num 10) (num 4) JNull,
      group_row ''c'' (num 10) (num 4) (num 5)]
   \<and> fullMonthPaid
       [group_row ''a'' (num 10) (num 4) (num 4), group_row ''b'' (num 10) (num 4) JNull,
        group_row ''c'' (num 10) (num 4) (num 5)] = Inr 2"
  using fullMonthPaid_counts
    [of "[group_row ''a'' (num 10) (num 4) (num 4), group_row ''b'' (num 10) (num 4) JNull,
          group_row ''c'' (num 10) (num 4) (num 5)]"]
  by simp

subsection \<open>\<open>monthWeeks\<close>\<close>

lemma monthWeeks_map:
  "list_all (\<lambda>g. numeric_or_missing (weeks_total g)) gs \<Longrightarrow>
   js_map (\<lambda>g. js_Number (js_or (weeks_total g) (JNumber (Fin 0)))) gs
   = Inr (map Fin (map (\<lambda>g. spec_value (weeks_total g)) gs))"
  by (induction gs) (simp_all add: coerce_numeric_or_missing and_then_def)

text \<open>
  C9. \<open>monthWeeks\<close> is the fallback 4 on the empty collection, and on a non-empty one
  the maximum of the groups' weeks totals (each coerced to a number, a missing one
  counting as 0).
\<close>

theorem monthWeeks_max:
  "monthWeeks [] = Inr (Fin 4)
   \<and> (gs \<noteq> [] \<and> list_all (\<lambda>g. numeric_or_missing (weeks_total g)) gs \<longrightarrow>
        monthWeeks gs = Inr (Fin (Max (set (map (\<lambda>g. spec_value (weeks_total g)) gs)))))"
proof -
  have "monthWeeks gs = Inr (Fin (Max (set (map (\<lambda>g. spec_value (weeks_total g)) gs))))"
    if ne: "gs \<noteq> []" and nm: "list_all (\<lambda>g. numeric_or_missing (weeks_total g)) gs"
  proof -
    obtain x xs where xs: "map (\<lambda>g. spec_value (weeks_total g)) gs = x # xs"
      using ne by (cases gs) auto
    have "Math_max (map Fin (x # xs)) = Fin (Max (set (x # xs)))"
      by (simp add: Math_max_def max2_def foldl_max2_Fin)
    then show ?thesis
      using ne monthWeeks_map [OF nm] xs by (simp add: monthWeeks_def members_def and_then_def)
  qed
  then show ?thesis by (simp add: monthWeeks_def members_def)
qed

text \<open>The theorem at groups of 4, 5 and no weeks total: the maximum is 5.\<close>

theorem monthWeeks_max_witness:
  "list_all (\<lambda>g. numeric_or_missing (weeks_total g))
     [group_row ''a'' (num 10) (num 4) (num 4), group_row ''b'' (num 10) (num 5) (num 1),
      group_row ''c'' (num 10) JNull (num 0)]
   \<and> monthWeeks
       [group_row ''a'' (num 10) (num 4) (num 4), group_row ''b'' (num 10) (num 5) (num 1),
        group_row ''c'' (num 10) JNull (num 0)] = Inr (Fin 5)"
  using monthWeeks_max
    [of "[group_row ''a'' (num 10) (num 4) (num 4), group_row ''b'' (num 10) (num 5) (num 1),
          group_row ''c'' (num 10) JNull (num 0)]"]
  by simp

section \<open>The admin page\<close>

lemmas page_defs =
  step_def effect_isAdmin_def await_def refreshAuth_call_def refreshAuth_user_def
  refreshAuth_role_def loadGroups_call_def loadGroups_return_def signOut_call_def
  signOut_return_def savePaidWeeks_call_def savePaidWeeks_updated_def
  savePaidWeeks_reloaded_def



subsection \<open>What \<^verbatim>\<open>savePaidWeeks\<close> writes\<close>

text \<open>
  C3 (as amended). The client neither clamps nor rejects: \<^verbatim>\<open>savePaidWeeks(id, v)\<close> sends the
  update of \<open>paid_weeks\<close> to \<open>v\<close> as it is, and whenever the controls of a group are enabled,
  the Save button and the Enter key send \<^verbatim>\<open>Number(value)\<close> of what the input reads,
  whatever the group's \<open>weeks_total\<close>.
\<close>

theorem savePaidWeeks_sends_value_unchanged:
  "sent (savePaidWeeks_call id' v s) = sent s @ [UpdateGroup id' v]
   \<and> (save_enabled s id' \<longrightarrow>
        sent (step s (ClickSave id' val)) = sent s @ [UpdateGroup id' (StringToNumber val)]
        \<and> sent (step s (PressEnter id' val)) = sent s @ [UpdateGroup id' (StringToNumber val)])"
  by (simp add: page_defs)

text \<open>The theorem at an admin's page showing a group of 4 weeks, the input reading 3.\<close>

theorem savePaidWeeks_sends_value_unchanged_witness:
  "save_enabled (run initial (admin_session [group_row ''a'' (num 10) (num 4) (num 2)])) ''a''
   \<and> sent (step (run initial (admin_session [group_row ''a'' (num 10) (num 4) (num 2)]))
             (ClickSave ''a'' ''3''))
     = sent (run initial (admin_session [group_row ''a'' (num 10) (num 4) (num 2)]))
       @ [UpdateGroup ''a'' (Fin 3)]"
proof -
  have e: "save_enabled
      (run initial (admin_session [group_row ''a'' (num 10) (num 4) (num 2)])) ''a''"
    by code_simp
  have n: "StringToNumber ''3'' = Fin 3"
    by code_simp
  show ?thesis
    using savePaidWeeks_sends_value_unchanged
      [of "''a''" _ "run initial (admin_session [group_row ''a'' (num 10) (num 4) (num 2)])"
        "''3''"] e n
    by simp
qed

text \<open>
  The claim as stated fails: on a group of 4 weeks, an admin who types 7, or -1, and
  saves has that very value sent to the store.
\<close>

theorem savePaidWeeks_out_of_range_counterexample:
  "sent (run initial (admin_session [group_row ''a'' (num 10) (num 4) (num 2)]
                      @ [ClickSave ''a'' ''7'']))
     = [GetUser, RoleQuery ''u1'', SelectGroups None, UpdateGroup ''a'' (Fin 7)]
   \<and> sent (run initial (admin_session [group_row ''a'' (num 10) (num 4) (num 2)]
                        @ [PressEnter ''a'' ''-1'']))
     = [GetUser, RoleQuery ''u1'', SelectGroups None, UpdateGroup ''a'' (Fin (- 1))]"
  by code_simp

subsection \<open>\<^verbatim>\<open>canEdit\<close> once \<^verbatim>\<open>refreshAuth\<close> has run\<close>

text \<open>
  C4 (as amended). From any state of the page, once \<^verbatim>\<open>refreshAuth\<close> has run from its call
  to its end with no other event in between, \<^verbatim>\<open>canEdit\<close> is true exactly when a session is
  present and the role lookup returned admin; a session whose role lookup finds no row
  resolves to viewer (\<^verbatim>\<open>isAdmin\<close> false), and \<^verbatim>\<open>canEdit\<close> is false when there is no session.
\<close>

theorem canEdit_after_refreshAuth:
  "canEdit (refreshAuth user roleRow s) = (session_present user \<and> role_is_admin roleRow)
   \<and> \<not> isAdmin (refreshAuth (Some u) None s)
   \<and> \<not> canEdit (refreshAuth (Some u) None s)
   \<and> \<not> canEdit (refreshAuth None roleRow s)"
  by (auto simp add: refreshAuth_def run_def page_defs canEdit_def session_present_def
      role_is_admin_def Let_def split: option.splits)

text \<open>
  The claim as stated, for every state, fails in two ways. \<^verbatim>\<open>refreshAuth\<close> sets \<^verbatim>\<open>userEmail\<close>
  before it awaits the role query and leaves \<^verbatim>\<open>isAdmin\<close> as it was: when the session of
  admin \<open>u1\<close> is replaced by that of \<open>u2\<close>, the page shows \<open>u2\<close> with \<^verbatim>\<open>canEdit\<close> true and Save
  enabled while the role of \<open>u2\<close> is still being looked up. And the answers are applied in
  the order they arrive: \<open>u1\<close> is signed in when the page mounts, the session changes to
  \<open>u2\<close>, whose role lookup finds no row, and then the answer to the earlier lookup for \<open>u1\<close>
  arrives and sets \<^verbatim>\<open>isAdmin\<close>; once the groups are loaded nothing is in flight, the page
  shows \<open>u2\<close>, and \<^verbatim>\<open>canEdit\<close> is true.
\<close>

theorem canEdit_stale_role_counterexample:
  "canEdit (run initial (admin_session two_groups
      @ [AuthStateChange,
         Returns GetUser
           (UserData (Some \<lparr> user_id = ''u2'', email = Some ''member@example.org'' \<rparr>))]))
   \<and> userEmail (run initial (admin_session two_groups
      @ [AuthStateChange,
         Returns GetUser
           (UserData (Some \<lparr> user_id = ''u2'', email = Some ''member@example.org'' \<rparr>))]))
     = Some ''member@example.org''
   \<and> awaiting (run initial (admin_session two_groups
      @ [AuthStateChange,
         Returns GetUser
           (UserData (Some \<lparr> user_id = ''u2'', email = Some ''member@example.org'' \<rparr>))]))
     = [RoleQuery ''u2'']
   \<and> save_enabled (run initial (admin_session two_groups
      @ [AuthStateChange,
         Returns GetUser
           (UserData (Some \<lparr> user_id = ''u2'', email = Some ''member@example.org'' \<rparr>))])) ''a''
   \<and> canEdit (run initial
      [Mount,
       Returns GetUser
         (UserData (Some \<lparr> user_id = ''u1'', email = Some ''admin@example.org'' \<rparr>)),
       AuthStateChange,
       Returns GetUser
         (UserData (Some \<lparr> user_id = ''u2'', email = Some ''member@example.org'' \<rparr>)),
       Returns (RoleQuery ''u2'') (RoleData None),
       Returns (RoleQuery ''u1'') (RoleData (Some \<lparr> role = ''admin'' \<rparr>)),
       Returns (SelectGroups None) (GroupsData (Some two_groups) None)])
   \<and> userEmail (run initial
      [Mount,
       Returns GetUser
         (UserData (Some \<lparr> user_id = ''u1'', email = Some ''admin@example.org'' \<rparr>)),
       AuthStateChange,
       Returns GetUser
         (UserData (Some \<lparr> user_id = ''u2'', email = Some ''member@example.org'' \<rparr>)),
       Returns (RoleQuery ''u2'') (RoleData None),
       Returns (RoleQuery ''u1'') (RoleData (Some \<lparr> role = ''admin'' \<rparr>)),
       Returns (SelectGroups None) (GroupsData (Some two_groups) None)])
     = Some ''member@example.org''
   \<and> awaiting (run initial
      [Mount,
       Returns GetUser
         (UserData (Some \<lparr> user_id = ''u1'', email = Some ''admin@example.org'' \<rparr>)),
       AuthStateChange,
       Returns GetUser
         (UserData (Some \<lparr> user_id = ''u2'', email = Some ''member@example.org'' \<rparr>)),
       Returns (RoleQuery ''u2'') (RoleData None),
       Returns (RoleQuery ''u1'') (RoleData (Some \<lparr> role = ''admin'' \<rparr>)),
       Returns (SelectGroups None) (GroupsData (Some two_groups) None)])
     = []
   \<and> save_enabled (run initial
      [Mount,
       Returns GetUser
         (UserData (Some \<lparr> user_id = ''u1'', email = Some ''admin@example.org'' \<rparr>)),
       AuthStateChange,
       Returns GetUser
         (UserData (Some \<lparr> user_id = ''u2'', email = Some ''member@example.org'' \<rparr>)),
       Returns (RoleQuery ''u2'') (RoleData None),
       Returns (RoleQuery ''u1'') (RoleData (Some \<lparr> role = ''admin'' \<rparr>)),
       Returns (SelectGroups None) (GroupsData (Some two_groups) None)]) ''a''"
  by code_simp

subsection \<open>The message after a save\<close>

text \<open>
  C5. On store success \<^verbatim>\<open>savePaidWeeks\<close> sets the confirmation and calls \<^verbatim>\<open>loadGroups()\<close>,
  whose first statements reset the message before the page renders: from every state,
  the state that follows the store's answer holds no message and a reload in flight;
  and on an admin's page, after a save of 3 for group \<open>a\<close> the message is empty both while
  the reload is in flight and once it has returned.
\<close>

theorem savePaidWeeks_confirmation_cleared:
  "msg (savePaidWeeks_updated id' None s) = None
   \<and> sent (savePaidWeeks_updated id' None s) = sent s @ [SelectGroups (Some id')]
   \<and> msg (run initial (admin_session two_groups
                        @ [ClickSave ''a'' ''3'',
                           Returns (UpdateGroup ''a'' (Fin 3)) (UpdateResult None)])) = None
   \<and> msg (run initial (admin_session two_groups
                        @ [ClickSave ''a'' ''3'',
                           Returns (UpdateGroup ''a'' (Fin 3)) (UpdateResult None),
                           Returns (SelectGroups (Some ''a''))
                             (GroupsData (Some [group_row ''a'' (num 10) (num 4) (num 3),
                                                group_row ''b'' (num 10) (num 4) (num 0)])
                                None)])) = None"
proof -
  have general: "msg (savePaidWeeks_updated id' None s) = None
      \<and> sent (savePaidWeeks_updated id' None s) = sent s @ [SelectGroups (Some id')]"
    by (simp add: page_defs)
  have reloading: "msg (run initial (admin_session two_groups
                        @ [ClickSave ''a'' ''3'',
                           Returns (UpdateGroup ''a'' (Fin 3)) (UpdateResult None)])) = None"
    by code_simp
  have reloaded: "msg (run initial (admin_session two_groups
                        @ [ClickSave ''a'' ''3'',
                           Returns (UpdateGroup ''a'' (Fin 3)) (UpdateResult None),
                           Returns (SelectGroups (Some ''a''))
                             (GroupsData (Some [group_row ''a'' (num 10) (num 4) (num 3),
                                                group_row ''b'' (num 10) (num 4) (num 0)])
                                None)])) = None"
    by code_simp
  show ?thesis using general reloading reloaded by blast
qed

subsection \<open>The controls of a group while its save is in flight\<close>

text \<open>
  C8. \<^verbatim>\<open>savingId\<close> holds one id. On an admin's page with groups \<open>a\<close> and \<open>b\<close>, after Save
  on \<open>a\<close> and then Save on \<open>b\<close>, the update of \<open>a\<close> is still in flight while \<^verbatim>\<open>savingId\<close> is
  \<open>b\<close>: the controls of \<open>a\<close> are enabled, and a further Save on \<open>a\<close> sends a second update
  of \<open>a\<close> while the first is in flight.
\<close>

theorem savingId_overwritten_by_second_save:
  "in_flight (run initial (admin_session two_groups
                           @ [ClickSave ''a'' ''3'', ClickSave ''b'' ''1''])) ''a''
   \<and> savingId (run initial (admin_session two_groups
                            @ [ClickSave ''a'' ''3'', ClickSave ''b'' ''1''])) = Some ''b''
   \<and> save_enabled (run initial (admin_session two_groups
                                @ [ClickSave ''a'' ''3'', ClickSave ''b'' ''1''])) ''a''
   \<and> awaiting (run initial (admin_session two_groups
                            @ [ClickSave ''a'' ''3'', ClickSave ''b'' ''1'',
                               ClickSave ''a'' ''4'']))
     = [UpdateGroup ''a'' (Fin 3), UpdateGroup ''b'' (Fin 1), UpdateGroup ''a'' (Fin 4)]"
  by code_simp

subsection \<open>Group reads and the role\<close>







end
